theory Spec2Isabelle
  imports Complex_Main "HOL-Library.Multiset"
begin

section \<open>Reimbursement calculator (src/components/RequestForm.tsx)\<close>

text \<open>
  Amounts are JavaScript numbers in the source. They are modelled as exact reals: the
  rounding of IEEE doubles is not part of the model, and the form hands the calculator
  \<^verbatim>\<open>watchSalary || 0\<close>, which is never NaN. The second argument (the request type) is
  accepted and ignored, as in the source.
\<close>

definition BASE_SALARY :: real where
  "BASE_SALARY = 2018.36"

definition SALARY_PERCENTAGE :: real where
  "SALARY_PERCENTAGE = 0.9"

definition calculateReimbursement :: "real \<Rightarrow> string \<Rightarrow> real" where
  "calculateReimbursement salary ty =
     (if salary \<le> 0 then 0
      else let maxReimbursable = salary * SALARY_PERCENTAGE
           in if maxReimbursable \<le> BASE_SALARY then BASE_SALARY else maxReimbursable)"

section \<open>Data model (src/integrations/supabase/types.ts, src/hooks/useRequests.ts)\<close>

text \<open>
  Timestamps are instants (a natural number of milliseconds); the source holds them as
  ISO strings and the store as timestamps. A column or property that may be null or
  absent is an \<open>option\<close>. Field names follow the source, with a prefix where two records
  would share a name.
\<close>

type_synonym timestamp = nat

datatype request_status = Pending | Approved | Rejected

datatype request_type = Psicologico | Medico | Odontologico | Fisioterapia | Outros

datatype user_role = Solicitante | Gestora

record dependent =
  dep_name :: string
  relationship :: string

record request_row =
  req_id :: string
  user_id :: string
  req_type :: request_type
  description :: string
  amount :: real
  status :: request_status
  approved_by :: "string option"
  approved_at :: "timestamp option"
  rejection_reason :: "string option"
  created_at :: timestamp
  updated_at :: timestamp
  polo :: "string option"
  attachments :: "string list option"
  dependents :: "dependent list option"

record user_row =
  usr_id :: string
  auth_id :: string
  usr_name :: string
  usr_email :: string
  usr_role :: user_role
  usr_polo :: "string option"
  usr_department :: "string option"

text \<open>JavaScript truthiness of a value of type \<^verbatim>\<open>string | null | undefined\<close>.\<close>

definition truthy :: "string option \<Rightarrow> bool" where
  "truthy v = (case v of None \<Rightarrow> False | Some s \<Rightarrow> s \<noteq> [])"

section \<open>The data store and the notifier, as the edge function sees them\<close>

text \<open>
  The relational store, the notification function and the clock are external to the
  repository. The store is a list of rows; an update keyed by id that is read back with
  \<^verbatim>\<open>.select().single()\<close> succeeds when exactly one row has that id and fails without
  writing otherwise. The environment says whether the store rejects the update for a
  reason of its own (\<open>store_fault\<close>), fails a query (\<open>query_fault\<close>) or an insert
  (\<open>insert_fault\<close>, with \<open>fresh_id\<close> the id the store gives a new row), what the
  notification call does, and what time it is (\<open>now\<close>; \<open>date_now k\<close> is the reading of
  the k-th \<^verbatim>\<open>Date.now()\<close> of an upload). \<open>storage_upload\<close> is the object storage: for an
  object name and a file it answers an error message or the data of the upload, whose
  path may be missing.
\<close>

record update_data =
  ud_status :: request_status
  ud_approved_at :: timestamp
  ud_rejection_reason :: "string option"

definition apply_update :: "update_data \<Rightarrow> request_row \<Rightarrow> request_row" where
  "apply_update d r =
     (let r1 = r\<lparr>status := ud_status d, approved_at := Some (ud_approved_at d)\<rparr>
      in case ud_rejection_reason d of
           None \<Rightarrow> r1
         | Some reason \<Rightarrow> r1\<lparr>rejection_reason := Some reason\<rparr>)"

definition no_single_row :: string where
  "no_single_row = ''JSON object requested, multiple (or no) rows returned''"

definition db_update ::
  "string option \<Rightarrow> update_data \<Rightarrow> string \<Rightarrow> request_row list \<Rightarrow>
     string + (request_row \<times> request_row list)" where
  "db_update fault d rid rows =
     (case fault of
        Some msg \<Rightarrow> Inl msg
      | None \<Rightarrow>
          (case filter (\<lambda>r. req_id r = rid) rows of
             [r] \<Rightarrow> Inr (apply_update d r,
                        map (\<lambda>x. if req_id x = rid then apply_update d x else x) rows)
           | _ \<Rightarrow> Inl no_single_row))"

text \<open>
  What the call of the notification function does: it delivers, it returns an error
  object without throwing (the handler does not read what the call returns), or it
  throws.
\<close>

datatype email_outcome = EmailSent | EmailError | EmailThrows

record File =
  file_name :: string

record env =
  now :: timestamp
  store_fault :: "string option"
  email_call :: email_outcome
  query_fault :: "string option"
  insert_fault :: "string option"
  fresh_id :: string
  date_now :: "nat \<Rightarrow> nat"
  storage_upload :: "string \<Rightarrow> File \<Rightarrow> string + string option"

text \<open>
  The credential a call to the store is made with: the service-role key of the function
  or the token of the caller. Every update the handler issues is recorded with its
  credential, every notification it requests with its body.
\<close>

datatype credential = ServiceRole | CallerToken string

record store_call =
  call_credential :: credential
  call_id :: string
  call_data :: update_data

record notification =
  n_requestId :: string
  n_action :: request_status
  n_rejectionReason :: "string option"

datatype log_entry = Log string | Err string

record world =
  requests_table :: "request_row list"
  users_table :: "user_row list"
  console :: "log_entry list"
  store_calls :: "store_call list"
  notifications :: "notification list"
  upload_calls :: "string list"
  bucket :: "string list"

definition console_log :: "log_entry \<Rightarrow> world \<Rightarrow> world" where
  "console_log l w = w\<lparr>console := console w @ [l]\<rparr>"

section \<open>The edge function (supabase/functions/request-management/index.ts)\<close>

text \<open>
  The body of a POST is read with \<^verbatim>\<open>req.json()\<close>, which throws on a body that is not
  JSON (\<open>Inl\<close> with the message of the error thrown). The status of a parsed body is
  one of the store's status values.
\<close>

record UpdateRequestBody =
  requestId :: string
  body_status :: request_status
  rejectionReason :: "string option"

record http_request =
  http_method :: string
  authorization :: "string option"
  json :: "string + UpdateRequestBody"

datatype response_body =
    NullBody
  | SuccessBody request_row string
  | ErrorBody string "string option"

record http_response =
  status_code :: nat
  headers :: "(string \<times> string) list"
  body :: response_body

definition corsHeaders :: "(string \<times> string) list" where
  "corsHeaders =
     [(''Access-Control-Allow-Origin'', ''*''),
      (''Access-Control-Allow-Headers'',
       ''authorization, x-client-info, apikey, content-type'')]"

definition json_headers :: "(string \<times> string) list" where
  "json_headers = (''Content-Type'', ''application/json'') # corsHeaders"

definition status_text :: "request_status \<Rightarrow> string" where
  "status_text s =
     (case s of Pending \<Rightarrow> ''pending'' | Approved \<Rightarrow> ''approved'' | Rejected \<Rightarrow> ''rejected'')"

text \<open>
  \<^verbatim>\<open>updateData\<close>: the status and \<^verbatim>\<open>approved_at\<close> always, \<^verbatim>\<open>rejection_reason\<close> only for
  a rejection that carries a truthy reason.
\<close>

definition updateData :: "timestamp \<Rightarrow> UpdateRequestBody \<Rightarrow> update_data" where
  "updateData t b =
     \<lparr>ud_status = body_status b,
      ud_approved_at = t,
      ud_rejection_reason =
        (if body_status b = Rejected \<and> truthy (rejectionReason b)
         then rejectionReason b else None)\<rparr>"

text \<open>The block under \<^verbatim>\<open>if (req.method === 'POST')\<close>; \<open>Inl\<close> is the error thrown.\<close>

definition handler_post ::
  "env \<Rightarrow> UpdateRequestBody \<Rightarrow> world \<Rightarrow> (string + http_response) \<times> world" where
  "handler_post e b w =
     (let w1 = console_log (Log ''Request data:'') w;
          d = updateData (now e) b;
          w2 = console_log (Log ''Updating request with data:'') w1;
          w3 = w2\<lparr>store_calls := store_calls w2 @
                  [\<lparr>call_credential = ServiceRole, call_id = requestId b, call_data = d\<rparr>]\<rparr>
      in case db_update (store_fault e) d (requestId b) (requests_table w3) of
           Inl msg \<Rightarrow>
             (Inl (''Failed to update request: '' @ msg), console_log (Err ''Update error:'') w3)
         | Inr (updatedRequest, rows) \<Rightarrow>
             (let w4 = console_log (Log ''Request updated successfully:'')
                         (w3\<lparr>requests_table := rows\<rparr>);
                  w5 = w4\<lparr>notifications := notifications w4 @
                          [\<lparr>n_requestId = requestId b, n_action = body_status b,
                            n_rejectionReason = rejectionReason b\<rparr>]\<rparr>;
                  w6 = (case email_call e of
                          EmailThrows \<Rightarrow> console_log (Err ''Failed to send email notification:'') w5
                        | _ \<Rightarrow> console_log (Log ''Email notification sent'') w5)
              in (Inr \<lparr>status_code = 200, headers = json_headers,
                       body = SuccessBody updatedRequest
                                (''Request '' @ status_text (body_status b) @ '' successfully'')\<rparr>,
                  w6)))"

text \<open>The \<^verbatim>\<open>try\<close> block of the handler.\<close>

definition handler_try ::
  "env \<Rightarrow> http_request \<Rightarrow> world \<Rightarrow> (string + http_response) \<times> world" where
  "handler_try e req w =
     (let authHeader = authorization req;
          w1 = console_log (Log (''Auth header: '' @
                  (if truthy authHeader then ''Present'' else ''Missing''))) w
      in if \<not> truthy authHeader then (Inl ''Missing authorization header'', w1)
         else if http_method req = ''POST'' then
           (case json req of
              Inl msg \<Rightarrow> (Inl msg, w1)
            | Inr b \<Rightarrow> handler_post e b w1)
         else (Inr \<lparr>status_code = 405, headers = json_headers,
                    body = ErrorBody ''Method not allowed'' None\<rparr>, w1))"

definition handler :: "env \<Rightarrow> http_request \<Rightarrow> world \<Rightarrow> http_response \<times> world" where
  "handler e req w =
     (if http_method req = ''OPTIONS''
      then (\<lparr>status_code = 200, headers = corsHeaders, body = NullBody\<rparr>, w)
      else case handler_try e req w of
             (Inr resp, w1) \<Rightarrow> (resp, w1)
           | (Inl msg, w1) \<Rightarrow>
               (\<lparr>status_code = 500, headers = json_headers,
                 body = ErrorBody msg (Some ''Check function logs for more information'')\<rparr>,
                console_log (Err ''Error in request-management function:'') w1))"

section \<open>The request hook (src/hooks/useRequests.ts)\<close>

text \<open>
  A request as the client holds it: a row of the store together with the joined fields
  of its owner (\<^verbatim>\<open>users\<close>, absent when the join finds no user). The profile of the
  signed-in user comes from the authentication context and is absent when nobody is
  signed in. The tables of the world are the rows the store lets the session see; the
  store's row-level security is outside the repository. Console output of the client is
  not modelled.
\<close>

record users_join =
  name :: string
  email :: string
  department :: "string option"
  users_polo :: "string option"

record request = request_row +
  users :: "users_join option"

record profile =
  profile_id :: string
  role :: user_role

record hook_state =
  requests :: "request list"
  loading :: bool
  error :: "string option"

definition join_users :: "user_row list \<Rightarrow> request_row \<Rightarrow> request" where
  "join_users us r =
     request_row.extend r
       (request.fields
          (map_option
             (\<lambda>u. \<lparr>name = usr_name u, email = usr_email u,
                   department = usr_department u, users_polo = usr_polo u\<rparr>)
             (find (\<lambda>u. usr_id u = user_id r) us)))"

text \<open>
  The query that \<^verbatim>\<open>fetchRequests\<close> builds, evaluated on the store: all rows with the
  joined user fields, restricted to the viewer's own rows for a \<^verbatim>\<open>solicitante\<close>, newest
  first.
\<close>

definition select_requests :: "profile \<Rightarrow> world \<Rightarrow> request list" where
  "select_requests p w =
     (let joined = map (join_users (users_table w)) (requests_table w);
          query = (if role p = Solicitante
                   then filter (\<lambda>r. user_id r = profile_id p) joined
                   else joined)
      in rev (sort_key created_at query))"

definition transform :: "request \<Rightarrow> request" where
  "transform r =
     r\<lparr>dependents := Some (case dependents r of Some ds \<Rightarrow> ds | None \<Rightarrow> [])\<rparr>"

definition fetchRequests :: "env \<Rightarrow> profile option \<Rightarrow> world \<Rightarrow> hook_state \<Rightarrow> hook_state" where
  "fetchRequests e prof w h =
     (case prof of
        None \<Rightarrow> h
      | Some p \<Rightarrow>
          (let h1 = h\<lparr>loading := True\<rparr>
           in case query_fault e of
                Some msg \<Rightarrow> h1\<lparr>error := Some msg, loading := False\<rparr>
              | None \<Rightarrow>
                  h1\<lparr>requests := map transform (select_requests p w),
                     error := None, loading := False\<rparr>))"

text \<open>
  \<^verbatim>\<open>updateRequestStatus\<close> posts to the edge function with the session's token and
  refreshes the list. The call reports an error when the response status is not 2xx;
  the network between client and function is taken to deliver.
\<close>

definition non_2xx :: string where
  "non_2xx = ''Edge Function returned a non-2xx status code''"

definition updateRequestStatus ::
  "env \<Rightarrow> profile option \<Rightarrow> string option \<Rightarrow> string \<Rightarrow> request_status \<Rightarrow> string option \<Rightarrow>
     hook_state \<Rightarrow> world \<Rightarrow> (string + unit) \<times> hook_state \<times> world" where
  "updateRequestStatus e prof session rid st reason h w =
     (case session of
        None \<Rightarrow> (Inl ''User not authenticated'', h, w)
      | Some access_token \<Rightarrow>
          (case handler e
                  \<lparr>http_method = ''POST'',
                   authorization = Some (''Bearer '' @ access_token),
                   json = Inr \<lparr>requestId = rid, body_status = st, rejectionReason = reason\<rparr>\<rparr>
                  w of
             (resp, w1) \<Rightarrow>
               if 200 \<le> status_code resp \<and> status_code resp < 300
               then (Inr (), fetchRequests e prof w1 h, w1)
               else (Inl non_2xx, h, w1)))"

section \<open>The manager dashboard (src/pages/DashboardGestora.tsx)\<close>

text \<open>
  Text is held as UTF-8 bytes. \<open>is_blank s\<close> says that \<^verbatim>\<open>s.trim()\<close> is the empty string:
  \<open>s\<close> consists of white space and line terminators only (tab, LF, VT, FF, CR, space,
  U+00A0, U+1680, U+2000 to U+200A, U+2028, U+2029, U+202F, U+205F, U+3000, U+FEFF).
\<close>

fun is_blank :: "string \<Rightarrow> bool" where
  "is_blank [] = True"
| "is_blank (c # cs) =
     (let b = (of_char c :: nat) in
      if b \<in> {0x09, 0x0A, 0x0B, 0x0C, 0x0D, 0x20} then is_blank cs
      else if b = 0xC2 then
        (case cs of
           d # r \<Rightarrow> (of_char d :: nat) = 0xA0 \<and> is_blank r
         | [] \<Rightarrow> False)
      else if b \<in> {0xE1, 0xE2, 0xE3, 0xEF} then
        (case cs of
           d # d' # r \<Rightarrow>
             (let x = (of_char d :: nat); y = (of_char d' :: nat) in
              ((b = 0xE1 \<and> x = 0x9A \<and> y = 0x80) \<or>
               (b = 0xE2 \<and> x = 0x80 \<and> (0x80 \<le> y \<and> y \<le> 0x8A \<or> y \<in> {0xA8, 0xA9, 0xAF})) \<or>
               (b = 0xE2 \<and> x = 0x81 \<and> y = 0x9F) \<or>
               (b = 0xE3 \<and> x = 0x80 \<and> y = 0x80) \<or>
               (b = 0xEF \<and> x = 0xBB \<and> y = 0xBF)) \<and> is_blank r)
         | _ \<Rightarrow> False)
      else False)"

text \<open>The toasts of the dashboard, named by their titles.\<close>

datatype toast =
    MotivoObrigatorio
  | SolicitacaoRecusada
  | ErroAoRecusar string
  | SolicitacaoAprovada
  | ErroAoAprovar string

record dashboard =
  hook :: hook_state
  toasts :: "toast list"
  selectedRequest :: "request option"
  rejectionReason_text :: string
  processing :: bool

definition handleApprove ::
  "env \<Rightarrow> profile option \<Rightarrow> string option \<Rightarrow> string \<Rightarrow> dashboard \<Rightarrow> world \<Rightarrow>
     dashboard \<times> world" where
  "handleApprove e prof session rid c w =
     (let c1 = c\<lparr>processing := True\<rparr>
      in case updateRequestStatus e prof session rid Approved None (hook c1) w of
           (Inr u, h1, w1) \<Rightarrow>
             (c1\<lparr>hook := h1, toasts := toasts c1 @ [SolicitacaoAprovada],
                 processing := False\<rparr>, w1)
         | (Inl msg, h1, w1) \<Rightarrow>
             (c1\<lparr>hook := h1, toasts := toasts c1 @ [ErroAoAprovar msg],
                 processing := False\<rparr>, w1))"

definition handleReject ::
  "env \<Rightarrow> profile option \<Rightarrow> string option \<Rightarrow> string \<Rightarrow> string \<Rightarrow> dashboard \<Rightarrow> world \<Rightarrow>
     dashboard \<times> world" where
  "handleReject e prof session rid reason c w =
     (if is_blank reason
      then (c\<lparr>toasts := toasts c @ [MotivoObrigatorio]\<rparr>, w)
      else
        (let c1 = c\<lparr>processing := True\<rparr>
         in case updateRequestStatus e prof session rid Rejected (Some reason) (hook c1) w of
              (Inr u, h1, w1) \<Rightarrow>
                (c1\<lparr>hook := h1, toasts := toasts c1 @ [SolicitacaoRecusada],
                    selectedRequest := None, rejectionReason_text := [],
                    processing := False\<rparr>, w1)
            | (Inl msg, h1, w1) \<Rightarrow>
                (c1\<lparr>hook := h1, toasts := toasts c1 @ [ErroAoRecusar msg],
                    processing := False\<rparr>, w1)))"

text \<open>
  \<^verbatim>\<open>r.users?.polo\<close>, the branch of the owner of a request as the dashboard reads it.
\<close>

definition owner_polo :: "request \<Rightarrow> string option" where
  "owner_polo r = (case users r of None \<Rightarrow> None | Some u \<Rightarrow> users_polo u)"

definition filterByPolo :: "string \<Rightarrow> request list \<Rightarrow> request list" where
  "filterByPolo selectedPolo requestList =
     (if selectedPolo = ''todos'' then requestList
      else filter (\<lambda>r. owner_polo r = Some selectedPolo) requestList)"

text \<open>The four branches; two names have a letter outside ASCII, written as its bytes.\<close>

definition polos :: "string list" where
  "polos =
     [''3M Sumar'' @ [CHR 0xC3, CHR 0xA9],
      ''Manaus'',
      ''Ribeir'' @ [CHR 0xC3, CHR 0xA3] @ ''o Preto'',
      ''Itapetininga'']"

definition groupByPolo :: "request list \<Rightarrow> (string \<rightharpoonup> request list)" where
  "groupByPolo requestList =
     foldl (\<lambda>acc polo. acc(polo \<mapsto> filter (\<lambda>r. owner_polo r = Some polo) requestList))
       Map.empty polos"

section \<open>The request form (src/components/RequestForm.tsx)\<close>

record request_data =
  rd_type :: request_type
  rd_description :: string
  rd_amount :: real
  rd_polo :: string
  rd_dependents :: "dependent list"
  rd_attachments :: "string list"

text \<open>
  Modelled from the spec: the row the store makes of an insert. The column defaults
  belong to the schema of the store, not to this code: a new row is pending, has no
  approver, approval time or rejection reason, and gets its id and its timestamps from
  the store. The other columns are the values sent.
\<close>

definition inserted_row :: "env \<Rightarrow> string \<Rightarrow> request_data \<Rightarrow> request_row" where
  "inserted_row e uid requestData =
     \<lparr>req_id = fresh_id e, user_id = uid,
      req_type = rd_type requestData,
      description = rd_description requestData,
      amount = rd_amount requestData, status = Pending,
      approved_by = None, approved_at = None, rejection_reason = None,
      created_at = now e, updated_at = now e,
      polo = Some (rd_polo requestData),
      attachments = Some (rd_attachments requestData),
      dependents = Some (rd_dependents requestData)\<rparr>"

text \<open>\<^verbatim>\<open>createRequest\<close> of the hook inserts a row and refreshes the list.\<close>

definition createRequest ::
  "env \<Rightarrow> profile option \<Rightarrow> request_data \<Rightarrow> hook_state \<Rightarrow> world \<Rightarrow>
     (string + request_row) \<times> hook_state \<times> world" where
  "createRequest e prof requestData h w =
     (case prof of
        None \<Rightarrow> (Inl ''User not authenticated'', h, w)
      | Some p \<Rightarrow>
          (case insert_fault e of
             Some msg \<Rightarrow> (Inl msg, h, w)
           | None \<Rightarrow>
               (let row = inserted_row e (profile_id p) requestData;
                    w1 = w\<lparr>requests_table := requests_table w @ [row]\<rparr>
                in (Inr row, fetchRequests e prof w1 h, w1))))"

text \<open>Decimal digits of a number, for \<^verbatim>\<open>Date.now()\<close> inside an object name.\<close>

fun decimal :: "nat \<Rightarrow> string" where
  "decimal n =
     (if n < 10 then [''0123456789'' ! n]
      else decimal (n div 10) @ [''0123456789'' ! (n mod 10)])"

declare decimal.simps [simp del]

text \<open>The characters that \<^verbatim>\<open>replace(/[^a-zA-Z0-9.\-_]/g, '')\<close> keeps.\<close>

definition safe_char :: "char \<Rightarrow> bool" where
  "safe_char c =
     (c \<in> set (''abcdefghijklmnopqrstuvwxyz'' @ ''ABCDEFGHIJKLMNOPQRSTUVWXYZ'' @
               ''0123456789'' @ ''.-_''))"

text \<open>
  The loop of \<^verbatim>\<open>uploadFiles\<close>: one upload after the other, the first error is thrown
  (\<open>Inl\<close>) and ends the loop. \<open>fileName\<close> is the object name of the k-th file. The
  world records each upload requested and each object stored.
\<close>

definition fileName :: "env \<Rightarrow> string \<Rightarrow> nat \<Rightarrow> File \<Rightarrow> string" where
  "fileName e pid k f =
     (let sanitizedName = filter safe_char (file_name f)
      in pid @ ''/'' @ decimal (date_now e k) @ ''-'' @ sanitizedName)"

fun uploadFiles_loop ::
  "env \<Rightarrow> string \<Rightarrow> File list \<Rightarrow> nat \<Rightarrow> string list \<Rightarrow> world \<Rightarrow>
     (string + string list) \<times> world" where
  "uploadFiles_loop e pid [] k uploadedUrls w = (Inr uploadedUrls, w)"
| "uploadFiles_loop e pid (f # files) k uploadedUrls w =
     (let w1 = w\<lparr>upload_calls := upload_calls w @ [fileName e pid k f]\<rparr>
      in case storage_upload e (fileName e pid k f) f of
           Inl msg \<Rightarrow>
             (Inl (''Erro ao fazer upload do arquivo '' @ file_name f @ '': '' @ msg), w1)
         | Inr data \<Rightarrow>
             uploadFiles_loop e pid files (Suc k)
               (case data of Some path \<Rightarrow> uploadedUrls @ [path] | None \<Rightarrow> uploadedUrls)
               (w1\<lparr>bucket := bucket w1 @ [fileName e pid k f]\<rparr>))"

definition uploadFiles ::
  "env \<Rightarrow> profile option \<Rightarrow> File list \<Rightarrow> world \<Rightarrow> (string + string list) \<times> world" where
  "uploadFiles e prof files w =
     (case prof of
        None \<Rightarrow> (Inr [], w)
      | Some p \<Rightarrow>
          if profile_id p = [] \<or> files = [] then (Inr [], w)
          else uploadFiles_loop e (profile_id p) files 0 [] w)"

record form_data =
  fd_type :: request_type
  fd_description :: string
  fd_amount :: real
  fd_polo :: string

text \<open>
  The toasts of the form: no user, the warning that the attachments could not be uploaded
  while the request will still be created, success, and failure to create.
\<close>

datatype form_toast = UsuarioNaoEncontrado | AvisoAnexos | Sucesso | ErroAoCriar

text \<open>
  The state of the form; \<open>form_values\<close> is \<open>None\<close> when the fields hold their default
  values, as after \<^verbatim>\<open>form.reset()\<close>.
\<close>

record form_state =
  form_hook :: hook_state
  form_toasts :: "form_toast list"
  form_values :: "form_data option"
  dependents_list :: "dependent list"
  attachments_files :: "File list"
  showCalculator :: bool
  uploading :: bool

definition onSubmit ::
  "env \<Rightarrow> profile option \<Rightarrow> form_data \<Rightarrow> form_state \<Rightarrow> world \<Rightarrow> form_state \<times> world" where
  "onSubmit e prof values s w =
     (if (case prof of None \<Rightarrow> True | Some p \<Rightarrow> profile_id p = [])
      then (s\<lparr>form_toasts := form_toasts s @ [UsuarioNaoEncontrado]\<rparr>, w)
      else
        (let s1 = s\<lparr>uploading := True\<rparr>;
             validDependents =
               filter (\<lambda>dep. \<not> is_blank (dep_name dep) \<and> \<not> is_blank (relationship dep))
                 (dependents_list s1);
             (uploadedFiles, s2, w1) =
               (if attachments_files s1 \<noteq> [] then
                  (case uploadFiles e prof (attachments_files s1) w of
                     (Inr urls, w') \<Rightarrow> (urls, s1, w')
                   | (Inl msg, w') \<Rightarrow>
                       ([], s1\<lparr>form_toasts := form_toasts s1 @ [AvisoAnexos]\<rparr>, w'))
                else ([], s1, w));
             requestData =
               \<lparr>rd_type = fd_type values, rd_description = fd_description values,
                rd_amount = fd_amount values, rd_polo = fd_polo values,
                rd_dependents = validDependents, rd_attachments = uploadedFiles\<rparr>
         in case createRequest e prof requestData (form_hook s2) w1 of
              (Inr row, h, w2) \<Rightarrow>
                (s2\<lparr>form_hook := h, form_values := None, dependents_list := [],
                    attachments_files := [], showCalculator := False,
                    form_toasts := form_toasts s2 @ [Sucesso], uploading := False\<rparr>, w2)
            | (Inl msg, h, w2) \<Rightarrow>
                (s2\<lparr>form_hook := h, form_toasts := form_toasts s2 @ [ErroAoCriar],
                    uploading := False\<rparr>, w2)))"

section \<open>Sample data\<close>

definition sample_env :: env where
  "sample_env =
     \<lparr>now = 99, store_fault = None, email_call = EmailSent, query_fault = None,
      insert_fault = None, fresh_id = ''r9'', date_now = (\<lambda>k. 1000 + k),
      storage_upload =
        (\<lambda>fileName f. if file_name f = ''bad.pdf'' then Inl ''Payload too large''
                        else Inr (Some fileName))\<rparr>"

definition sample_request :: request_row where
  "sample_request =
     \<lparr>req_id = ''r1'', user_id = ''u1'', req_type = Medico,
      description = ''consulta medica'', amount = 150, status = Pending,
      approved_by = None, approved_at = None, rejection_reason = None,
      created_at = 10, updated_at = 10, polo = Some ''Manaus'',
      attachments = None, dependents = None\<rparr>"

definition sample_user :: user_row where
  "sample_user =
     \<lparr>usr_id = ''u1'', auth_id = ''a1'', usr_name = ''Ana'', usr_email = ''ana@example.com'',
      usr_role = Solicitante, usr_polo = Some ''Itapetininga'', usr_department = None\<rparr>"

definition sample_world :: world where
  "sample_world =
     \<lparr>requests_table = [sample_request], users_table = [sample_user], console = [],
      store_calls = [], notifications = [], upload_calls = [], bucket = []\<rparr>"

definition sample_request2 :: request_row where
  "sample_request2 =
     sample_request\<lparr>req_id := ''r2'', user_id := ''u2'', created_at := 20\<rparr>"

definition sample_user2 :: user_row where
  "sample_user2 =
     \<lparr>usr_id = ''u2'', auth_id = ''a2'', usr_name = ''Bia'', usr_email = ''bia@example.com'',
      usr_role = Solicitante, usr_polo = Some ''Manaus'', usr_department = Some ''RH''\<rparr>"

definition sample_world2 :: world where
  "sample_world2 =
     sample_world\<lparr>requests_table := [sample_request, sample_request2],
                  users_table := [sample_user, sample_user2]\<rparr>"

definition sample_requests :: "request list" where
  "sample_requests =
     map (join_users (users_table sample_world2)) (requests_table sample_world2)"

definition sample_hook :: hook_state where
  "sample_hook = \<lparr>requests = [], loading = True, error = None\<rparr>"

definition sample_form :: form_state where
  "sample_form =
     \<lparr>form_hook = sample_hook, form_toasts = [], form_values = None, dependents_list = [],
      attachments_files = [\<lparr>file_name = ''good.pdf''\<rparr>, \<lparr>file_name = ''bad.pdf''\<rparr>,
                           \<lparr>file_name = ''late.pdf''\<rparr>],
      showCalculator = False, uploading = False\<rparr>"

definition sample_values :: form_data where
  "sample_values =
     \<lparr>fd_type = Outros, fd_description = ''reembolso de exame'', fd_amount = 80,
      fd_polo = ''Manaus''\<rparr>"

definition sample_post :: "string \<Rightarrow> request_status \<Rightarrow> string option \<Rightarrow> http_request" where
  "sample_post rid st reason =
     \<lparr>http_method = ''POST'', authorization = Some ''Bearer token'',
      json = Inr \<lparr>requestId = rid, body_status = st, rejectionReason = reason\<rparr>\<rparr>"

section \<open>Properties of the reimbursement calculator\<close>

text \<open>
  C1. For every salary the suggestion is 0 when the salary is not positive; otherwise,
  with cap = salary * 0.9, it is the floor 2018.36 when cap is at most the floor and cap
  otherwise. In particular the suggestion for 2000 is 2018.36 and for 3000 it is 2700.
\<close>

theorem calculateReimbursement_piecewise:
  "(salary \<le> 0 \<longrightarrow> calculateReimbursement salary ty = 0) \<and>
   (0 < salary \<and> salary * 0.9 \<le> 2018.36 \<longrightarrow> calculateReimbursement salary ty = 2018.36) \<and>
   (0 < salary \<and> \<not> salary * 0.9 \<le> 2018.36 \<longrightarrow>
      calculateReimbursement salary ty = salary * 0.9) \<and>
   calculateReimbursement 2000 ty = 2018.36 \<and>
   calculateReimbursement 3000 ty = 2700"
  by (simp add: calculateReimbursement_def BASE_SALARY_def SALARY_PERCENTAGE_def Let_def)

theorem calculateReimbursement_piecewise_witness:
  "(-5 :: real) \<le> 0 \<and> calculateReimbursement (-5) ''outros'' = 0 \<and>
   (0 :: real) < 1000 \<and> (1000 :: real) * 0.9 \<le> 2018.36 \<and>
   calculateReimbursement 1000 ''outros'' = 2018.36 \<and>
   (0 :: real) < 5000 \<and> \<not> (5000 :: real) * 0.9 \<le> 2018.36 \<and>
   calculateReimbursement 5000 ''outros'' = 5000 * 0.9"
  using calculateReimbursement_piecewise [of "-5" "''outros''"]
    calculateReimbursement_piecewise [of 1000 "''outros''"]
    calculateReimbursement_piecewise [of 5000 "''outros''"]
  by simp

text \<open>
  C9, as stated, fails at salary 0 (and at every salary that is not positive): there
  0 * 0.9 is at most the floor, yet the suggestion is 0 and not the floor.
\<close>

theorem suggest_floor_rule_counterexample:
  "(0 :: real) * 0.9 \<le> 2018.36 \<and> calculateReimbursement 0 ''outros'' \<noteq> 2018.36"
  by (simp add: calculateReimbursement_def)

text \<open>
  C9, amended. For every positive salary s: the suggestion is the floor 2018.36 if
  s * 0.9 is at most the floor, and s * 0.9 otherwise; for every salary that is not
  positive the suggestion is 0, in particular at salary 0.
\<close>

theorem suggest_floor_rule_positive:
  "(0 < s \<longrightarrow>
      calculateReimbursement s ty = (if s * 0.9 \<le> 2018.36 then 2018.36 else s * 0.9)) \<and>
   (s \<le> 0 \<longrightarrow> calculateReimbursement s ty = 0) \<and>
   calculateReimbursement 0 ty = 0"
  by (simp add: calculateReimbursement_def BASE_SALARY_def SALARY_PERCENTAGE_def Let_def)

theorem suggest_floor_rule_positive_witness:
  "(0 :: real) < 2500 \<and> calculateReimbursement 2500 ''outros'' = 2250 \<and>
   (0 :: real) < 100 \<and> calculateReimbursement 100 ''outros'' = 2018.36 \<and>
   (-1 :: real) \<le> 0 \<and> calculateReimbursement (-1) ''outros'' = 0"
  using suggest_floor_rule_positive [of 2500 "''outros''"]
    suggest_floor_rule_positive [of 100 "''outros''"]
    suggest_floor_rule_positive [of "-1" "''outros''"]
  by simp

section \<open>Properties of the edge function and of the dashboard\<close>

lemmas sample_defs =
  sample_env_def sample_request_def sample_user_def sample_world_def sample_post_def
  sample_request2_def sample_user2_def sample_world2_def sample_hook_def sample_form_def
  sample_values_def sample_requests_def

lemmas handler_defs =
  handler_def handler_try_def handler_post_def updateData_def db_update_def apply_update_def
  console_log_def truthy_def status_text_def json_headers_def corsHeaders_def Let_def

subsection \<open>What a call of the handler can do\<close>

lemma db_update_Inr:
  "db_update f d rid rows = Inr (r', rows') \<Longrightarrow>
     f = None \<and> (\<exists>r. filter (\<lambda>x. req_id x = rid) rows = [r] \<and> r' = apply_update d r) \<and>
     rows' = map (\<lambda>x. if req_id x = rid then apply_update d x else x) rows"
  by (auto simp: db_update_def split: option.splits list.splits)

lemma req_id_apply_update: "req_id (apply_update d r) = req_id r"
  by (simp add: apply_update_def Let_def split: option.splits)

lemma filter_updated_rows:
  "filter (\<lambda>x. req_id x = rid) (map (\<lambda>x. if req_id x = rid then apply_update d x else x) rows)
     = map (apply_update d) (filter (\<lambda>x. req_id x = rid) rows)"
  by (induction rows) (simp_all add: req_id_apply_update)

lemma handler_post_cases:
  "handler_post e b w = (res, w') \<Longrightarrow>
     (\<exists>msg. res = Inl msg \<and> requests_table w' = requests_table w) \<or>
     (\<exists>r' rows'.
        db_update (store_fault e) (updateData (now e) b) (requestId b) (requests_table w)
          = Inr (r', rows') \<and>
        res = Inr \<lparr>status_code = 200, headers = json_headers,
                   body = SuccessBody r'
                     (''Request '' @ status_text (body_status b) @ '' successfully'')\<rparr> \<and>
        requests_table w' = rows')"
  by (auto simp: handler_post_def Let_def console_log_def split: sum.splits email_outcome.splits)

lemma handler_cases:
  "handler e req w = (resp, w') \<Longrightarrow>
     (requests_table w' = requests_table w \<and>
        (status_code resp \<noteq> 200 \<or> http_method req \<noteq> ''POST'')) \<or>
     (http_method req = ''POST'' \<and> truthy (authorization req) \<and>
      (\<exists>b r' rows'.
         json req = Inr b \<and>
         db_update (store_fault e) (updateData (now e) b) (requestId b) (requests_table w)
           = Inr (r', rows') \<and>
         resp = \<lparr>status_code = 200, headers = json_headers,
                  body = SuccessBody r'
                    (''Request '' @ status_text (body_status b) @ '' successfully'')\<rparr> \<and>
         requests_table w' = rows'))"
  unfolding handler_def handler_try_def Let_def
  by (auto simp: console_log_def split: if_splits sum.splits prod.splits
      dest!: handler_post_cases)

lemma handler_missing_auth:
  "\<not> truthy (authorization req) \<Longrightarrow> http_method req \<noteq> ''OPTIONS'' \<Longrightarrow>
     handler e req w =
       (\<lparr>status_code = 500, headers = json_headers,
         body = ErrorBody ''Missing authorization header''
                  (Some ''Check function logs for more information'')\<rparr>,
        console_log (Err ''Error in request-management function:'')
          (console_log (Log ''Auth header: Missing'') w))"
  by (simp add: handler_def handler_try_def Let_def)

lemma handler_post_step:
  "truthy (authorization req) \<Longrightarrow> http_method req = ''POST'' \<Longrightarrow> json req = Inr b \<Longrightarrow>
     handler e req w =
       (case handler_post e b (console_log (Log ''Auth header: Present'') w) of
          (Inr resp, w1) \<Rightarrow> (resp, w1)
        | (Inl msg, w1) \<Rightarrow>
            (\<lparr>status_code = 500, headers = json_headers,
              body = ErrorBody msg (Some ''Check function logs for more information'')\<rparr>,
             console_log (Err ''Error in request-management function:'') w1))"
  by (simp add: handler_def handler_try_def Let_def)

lemma handler_post_store_calls:
  "store_calls (snd (handler_post e b w)) =
     store_calls w @
       [\<lparr>call_credential = ServiceRole, call_id = requestId b,
         call_data = updateData (now e) b\<rparr>]"
  by (simp add: handler_post_def console_log_def Let_def
      split: sum.splits prod.splits email_outcome.splits)

lemma handler_post_success:
  "db_update (store_fault e) (updateData (now e) b) (requestId b) (requests_table w)
      = Inr (r', rows') \<Longrightarrow>
   fst (handler_post e b w) =
     Inr \<lparr>status_code = 200, headers = json_headers,
          body = SuccessBody r' (''Request '' @ status_text (body_status b) @ '' successfully'')\<rparr> \<and>
   requests_table (snd (handler_post e b w)) = rows' \<and>
   notifications (snd (handler_post e b w)) =
     notifications w @
       [\<lparr>n_requestId = requestId b, n_action = body_status b,
         n_rejectionReason = rejectionReason b\<rparr>] \<and>
   console (snd (handler_post e b w)) =
     console w @
       [Log ''Request data:'', Log ''Updating request with data:'',
        Log ''Request updated successfully:'',
        (if email_call e = EmailThrows then Err ''Failed to send email notification:''
         else Log ''Email notification sent'')]"
  by (simp add: handler_post_def console_log_def Let_def split: email_outcome.splits)

lemma handler_token_irrelevant:
  "truthy (authorization req) \<Longrightarrow> token \<noteq> [] \<Longrightarrow>
     handler e (req\<lparr>authorization := Some token\<rparr>) w = handler e req w"
  by (simp add: handler_def handler_try_def Let_def truthy_def)

lemma handler_success:
  assumes "truthy (authorization req)" and "http_method req = ''POST''"
    and "json req = Inr b"
    and "db_update (store_fault e) (updateData (now e) b) (requestId b) (requests_table w)
           = Inr (r', rows')"
  shows "fst (handler e req w) =
           \<lparr>status_code = 200, headers = json_headers,
            body = SuccessBody r'
                     (''Request '' @ status_text (body_status b) @ '' successfully'')\<rparr>"
    and "requests_table (snd (handler e req w)) = rows'"
    and "notifications (snd (handler e req w)) =
           notifications w @
             [\<lparr>n_requestId = requestId b, n_action = body_status b,
               n_rejectionReason = rejectionReason b\<rparr>]"
    and "email_call e = EmailThrows \<Longrightarrow>
           last (console (snd (handler e req w))) = Err ''Failed to send email notification:''"
proof -
  let ?w0 = "console_log (Log ''Auth header: Present'') w"
  note step = handler_post_step [OF assms(1,2,3), of e w]
  have u0: "db_update (store_fault e) (updateData (now e) b) (requestId b)
              (requests_table ?w0) = Inr (r', rows')"
    using assms(4) by (simp add: console_log_def)
  note ok = handler_post_success [OF u0]
  obtain res w1 where p: "handler_post e b ?w0 = (res, w1)"
    by (cases "handler_post e b ?w0")
  with ok have res: "res = Inr \<lparr>status_code = 200, headers = json_headers,
      body = SuccessBody r' (''Request '' @ status_text (body_status b) @ '' successfully'')\<rparr>"
    by simp
  have h: "handler e req w =
      (\<lparr>status_code = 200, headers = json_headers,
        body = SuccessBody r' (''Request '' @ status_text (body_status b) @ '' successfully'')\<rparr>,
       w1)"
    by (simp add: step p res)
  from ok p have w1: "requests_table w1 = rows'"
    "notifications w1 = notifications w @
             [\<lparr>n_requestId = requestId b, n_action = body_status b,
               n_rejectionReason = rejectionReason b\<rparr>]"
    "email_call e = EmailThrows \<longrightarrow>
           last (console w1) = Err ''Failed to send email notification:''"
    by (simp_all add: console_log_def)
  show "fst (handler e req w) =
           \<lparr>status_code = 200, headers = json_headers,
            body = SuccessBody r'
                     (''Request '' @ status_text (body_status b) @ '' successfully'')\<rparr>"
    by (simp add: h)
  show "requests_table (snd (handler e req w)) = rows'"
    by (simp add: h w1)
  show "notifications (snd (handler e req w)) =
           notifications w @
             [\<lparr>n_requestId = requestId b, n_action = body_status b,
               n_rejectionReason = rejectionReason b\<rparr>]"
    by (simp add: h w1)
  show "last (console (snd (handler e req w))) = Err ''Failed to send email notification:''"
    if "email_call e = EmailThrows"
    using that w1 by (simp add: h)
qed

subsection \<open>Rejection without a reason\<close>

text \<open>
  C2, as stated, fails on the edge function: a POST that asks for \<^verbatim>\<open>rejected\<close> and
  carries no reason is answered with 200 and the pending request becomes rejected.
\<close>

theorem reject_without_reason_counterexample:
  "rejectionReason \<lparr>requestId = ''r1'', body_status = Rejected, rejectionReason = None\<rparr> = None \<and>
   map status (requests_table sample_world) = [Pending] \<and>
   status_code (fst (handler sample_env (sample_post ''r1'' Rejected None) sample_world)) = 200 \<and>
   map status (requests_table
      (snd (handler sample_env (sample_post ''r1'' Rejected None) sample_world))) = [Rejected]"
  by (simp add: sample_defs handler_defs)

text \<open>
  C2, amended. A rejection asked for on the manager dashboard with a reason that is empty
  or white space only is refused with the validation message before anything is sent:
  the dashboard shows the message and the world, with every stored record, is unchanged.
\<close>

theorem handleReject_blank_refused:
  "is_blank reason \<Longrightarrow>
     handleReject e prof session rid reason c w =
       (c\<lparr>toasts := toasts c @ [MotivoObrigatorio]\<rparr>, w)"
  by (simp add: handleReject_def)

theorem handleReject_blank_refused_witness:
  "is_blank [CHR '' '', CHR 0x09, CHR 0xC2, CHR 0xA0] \<and>
   handleReject sample_env None (Some ''token'') ''r1'' [CHR '' '', CHR 0x09, CHR 0xC2, CHR 0xA0]
      \<lparr>hook = \<lparr>requests = [], loading = False, error = None\<rparr>, toasts = [],
       selectedRequest = None, rejectionReason_text = [], processing = False\<rparr> sample_world =
     (\<lparr>hook = \<lparr>requests = [], loading = False, error = None\<rparr>, toasts = [MotivoObrigatorio],
       selectedRequest = None, rejectionReason_text = [], processing = False\<rparr>, sample_world)"
proof -
  have h: "is_blank [CHR '' '', CHR 0x09, CHR 0xC2, CHR 0xA0]" by simp
  show ?thesis using h handleReject_blank_refused [OF h] by simp
qed

subsection \<open>Transitions out of a terminal state\<close>

text \<open>
  C3, as stated, fails: an approved request is rejected by an ordinary transition.
\<close>

theorem terminal_status_counterexample:
  "map status (requests_table
      (sample_world\<lparr>requests_table := [sample_request\<lparr>status := Approved\<rparr>]\<rparr>)) = [Approved] \<and>
   map status (requests_table
      (snd (handler sample_env (sample_post ''r1'' Rejected (Some ''duplicate''))
              (sample_world\<lparr>requests_table := [sample_request\<lparr>status := Approved\<rparr>]\<rparr>))))
     = [Rejected]"
  by (simp add: sample_defs handler_defs)

text \<open>
  C3, amended. A call of the transition operation leaves the status of each stored
  request as it was or sets it to the target status of the call, and it does so whatever
  the status was; when the target is not \<^verbatim>\<open>pending\<close> (the request type allows
  \<^verbatim>\<open>approved\<close> and \<^verbatim>\<open>rejected\<close> only) a request that is approved or rejected never returns
  to pending. After a successful call every stored request with the id of the call has the
  target status.
\<close>

theorem transition_sets_target:
  assumes "handler e req w = (resp, w')"
  shows "list_all2
           (\<lambda>r r'. status r' = status r \<or>
              (\<exists>b. json req = Inr b \<and> req_id r = requestId b \<and> status r' = body_status b))
           (requests_table w) (requests_table w') \<and>
         ((\<forall>b. json req = Inr b \<longrightarrow> body_status b \<noteq> Pending) \<longrightarrow>
          list_all2 (\<lambda>r r'. status r \<noteq> Pending \<longrightarrow> status r' \<noteq> Pending)
            (requests_table w) (requests_table w')) \<and>
         (http_method req = ''POST'' \<and> status_code resp = 200 \<longrightarrow>
            (\<exists>b. json req = Inr b \<and>
              (\<forall>r' \<in> set (requests_table w').
                 req_id r' = requestId b \<longrightarrow> status r' = body_status b)))"
  using handler_cases [OF assms]
  by (auto simp: list_all2_map2 list_all2_same apply_update_def updateData_def Let_def
      dest!: db_update_Inr split: option.splits)

theorem transition_sets_target_witness:
  "http_method (sample_post ''r1'' Rejected (Some ''duplicate'')) = ''POST'' \<and>
   status_code (fst (handler sample_env (sample_post ''r1'' Rejected (Some ''duplicate''))
      (sample_world\<lparr>requests_table := [sample_request\<lparr>status := Approved\<rparr>]\<rparr>))) = 200 \<and>
   list_all2 (\<lambda>r r'. status r \<noteq> Pending \<longrightarrow> status r' \<noteq> Pending)
     (requests_table (sample_world\<lparr>requests_table := [sample_request\<lparr>status := Approved\<rparr>]\<rparr>))
     (requests_table (snd (handler sample_env (sample_post ''r1'' Rejected (Some ''duplicate''))
        (sample_world\<lparr>requests_table := [sample_request\<lparr>status := Approved\<rparr>]\<rparr>)))) \<and>
   map status (requests_table (snd (handler sample_env
        (sample_post ''r1'' Rejected (Some ''duplicate''))
        (sample_world\<lparr>requests_table := [sample_request\<lparr>status := Approved\<rparr>]\<rparr>))))
     = [Rejected]"
  using transition_sets_target [OF surjective_pairing,
      where e = sample_env and req = "sample_post ''r1'' Rejected (Some ''duplicate'')"
        and w = "sample_world\<lparr>requests_table := [sample_request\<lparr>status := Approved\<rparr>]\<rparr>"]
  by (simp add: sample_defs handler_defs)

subsection \<open>The authorization check\<close>

text \<open>
  C4, as stated, fails: with a token in the Authorization header, a POST for an id that no
  stored request has is answered with an error and nothing is changed, so an error
  without mutation is not limited to requests without the header.
\<close>

theorem missing_header_counterexample:
  "authorization (sample_post ''unknown'' Approved None) = Some ''Bearer token'' \<and>
   status_code (fst (handler sample_env (sample_post ''unknown'' Approved None) sample_world))
     = 500 \<and>
   requests_table (snd (handler sample_env (sample_post ''unknown'' Approved None) sample_world))
     = requests_table sample_world"
  by (simp add: sample_defs handler_defs)

text \<open>
  C4, amended. For every POST: when the Authorization header is absent or empty the
  handler answers with the error \<^verbatim>\<open>Missing authorization header\<close>, issues no update and
  changes no request. When the header is not empty and the body parses, the handler
  issues the status update with the service-role credential, whatever the header holds;
  if the store accepts the update the answer is 200 and the table is the updated one; and
  the result of the handler is the same for every non-empty header value.
\<close>

theorem authorization_presence_only:
  assumes "http_method req = ''POST''"
  shows "(\<not> truthy (authorization req) \<longrightarrow>
            fst (handler e req w) =
              \<lparr>status_code = 500, headers = json_headers,
               body = ErrorBody ''Missing authorization header''
                        (Some ''Check function logs for more information'')\<rparr> \<and>
            requests_table (snd (handler e req w)) = requests_table w \<and>
            store_calls (snd (handler e req w)) = store_calls w) \<and>
         (truthy (authorization req) \<longrightarrow>
            (\<forall>b. json req = Inr b \<longrightarrow>
               store_calls (snd (handler e req w)) =
                 store_calls w @
                   [\<lparr>call_credential = ServiceRole, call_id = requestId b,
                     call_data = updateData (now e) b\<rparr>] \<and>
               (\<forall>r' rows'.
                  db_update (store_fault e) (updateData (now e) b) (requestId b)
                    (requests_table w) = Inr (r', rows') \<longrightarrow>
                  status_code (fst (handler e req w)) = 200 \<and>
                  requests_table (snd (handler e req w)) = rows')) \<and>
            (\<forall>token. token \<noteq> [] \<longrightarrow>
               handler e (req\<lparr>authorization := Some token\<rparr>) w = handler e req w))"
proof (intro conjI impI allI)
  assume a: "\<not> truthy (authorization req)"
  have n: "http_method req \<noteq> ''OPTIONS''" using assms by simp
  show "fst (handler e req w) =
      \<lparr>status_code = 500, headers = json_headers,
       body = ErrorBody ''Missing authorization header''
                (Some ''Check function logs for more information'')\<rparr>"
    by (simp add: handler_missing_auth [OF a n])
  show "requests_table (snd (handler e req w)) = requests_table w"
    by (simp add: handler_missing_auth [OF a n] console_log_def)
  show "store_calls (snd (handler e req w)) = store_calls w"
    by (simp add: handler_missing_auth [OF a n] console_log_def)
next
  fix b
  assume a: "truthy (authorization req)" and j: "json req = Inr b"
  let ?w0 = "console_log (Log ''Auth header: Present'') w"
  note step = handler_post_step [OF a assms j, of e w]
  have "store_calls (snd (handler e req w)) = store_calls (snd (handler_post e b ?w0))"
    unfolding step by (simp add: console_log_def split: prod.splits sum.splits)
  then show "store_calls (snd (handler e req w)) =
      store_calls w @
        [\<lparr>call_credential = ServiceRole, call_id = requestId b,
          call_data = updateData (now e) b\<rparr>]"
    by (simp add: handler_post_store_calls console_log_def)
next
  fix b r' rows'
  assume a: "truthy (authorization req)" and j: "json req = Inr b"
    and u: "db_update (store_fault e) (updateData (now e) b) (requestId b)
              (requests_table w) = Inr (r', rows')"
  show "status_code (fst (handler e req w)) = 200"
    by (simp add: handler_success(1) [OF a assms j u])
  show "requests_table (snd (handler e req w)) = rows'"
    by (rule handler_success(2) [OF a assms j u])
next
  fix token :: string
  assume "truthy (authorization req)" and "token \<noteq> []"
  then show "handler e (req\<lparr>authorization := Some token\<rparr>) w = handler e req w"
    by (rule handler_token_irrelevant)
qed

theorem authorization_presence_only_witness:
  "http_method (sample_post ''r1'' Approved None) = ''POST'' \<and>
   truthy (authorization (sample_post ''r1'' Approved None)) \<and>
   store_calls (snd (handler sample_env (sample_post ''r1'' Approved None) sample_world)) =
     [\<lparr>call_credential = ServiceRole, call_id = ''r1'',
       call_data = \<lparr>ud_status = Approved, ud_approved_at = 99, ud_rejection_reason = None\<rparr>\<rparr>] \<and>
   handler sample_env ((sample_post ''r1'' Approved None)\<lparr>authorization := Some ''forged''\<rparr>)
       sample_world
     = handler sample_env (sample_post ''r1'' Approved None) sample_world \<and>
   \<not> truthy (authorization ((sample_post ''r1'' Approved None)\<lparr>authorization := None\<rparr>)) \<and>
   status_code (fst (handler sample_env
       ((sample_post ''r1'' Approved None)\<lparr>authorization := None\<rparr>) sample_world)) = 500 \<and>
   requests_table (snd (handler sample_env
       ((sample_post ''r1'' Approved None)\<lparr>authorization := None\<rparr>) sample_world))
     = requests_table sample_world"
proof -
  have m: "http_method (sample_post ''r1'' Approved None) = ''POST''"
    by (simp add: sample_post_def)
  have m': "http_method ((sample_post ''r1'' Approved None)\<lparr>authorization := None\<rparr>) = ''POST''"
    by (simp add: sample_post_def)
  have t: "truthy (authorization (sample_post ''r1'' Approved None))"
    by (simp add: sample_post_def truthy_def)
  have t': "\<not> truthy (authorization ((sample_post ''r1'' Approved None)\<lparr>authorization := None\<rparr>))"
    by (simp add: truthy_def)
  have j: "json (sample_post ''r1'' Approved None) =
      Inr \<lparr>requestId = ''r1'', body_status = Approved, rejectionReason = None\<rparr>"
    by (simp add: sample_post_def)
  have f: "''forged'' \<noteq> []" by simp
  note A = authorization_presence_only [OF m, where e = sample_env and w = sample_world]
  note B = authorization_presence_only [OF m', where e = sample_env and w = sample_world]
  from A t j f have
    "store_calls (snd (handler sample_env (sample_post ''r1'' Approved None) sample_world)) =
       store_calls sample_world @
         [\<lparr>call_credential = ServiceRole, call_id = ''r1'',
           call_data = updateData (now sample_env)
              \<lparr>requestId = ''r1'', body_status = Approved, rejectionReason = None\<rparr>\<rparr>]"
    and "handler sample_env ((sample_post ''r1'' Approved None)\<lparr>authorization := Some ''forged''\<rparr>)
       sample_world = handler sample_env (sample_post ''r1'' Approved None) sample_world"
    by auto
  moreover from B t' have
    "status_code (fst (handler sample_env
       ((sample_post ''r1'' Approved None)\<lparr>authorization := None\<rparr>) sample_world)) = 500"
    and "requests_table (snd (handler sample_env
       ((sample_post ''r1'' Approved None)\<lparr>authorization := None\<rparr>) sample_world))
     = requests_table sample_world"
    by auto
  ultimately show ?thesis
    using m t t' by (simp add: sample_env_def sample_world_def updateData_def)
qed

subsection \<open>The record after an approval\<close>

text \<open>
  C5, as stated, fails: approving a request that was rejected with a reason succeeds and
  the reason stays on the record.
\<close>

theorem approve_keeps_reason_counterexample:
  "status_code (fst (handler sample_env (sample_post ''r1'' Approved None)
      (sample_world\<lparr>requests_table :=
         [sample_request\<lparr>status := Rejected, rejection_reason := Some ''late''\<rparr>]\<rparr>))) = 200 \<and>
   map status (requests_table (snd (handler sample_env (sample_post ''r1'' Approved None)
      (sample_world\<lparr>requests_table :=
         [sample_request\<lparr>status := Rejected, rejection_reason := Some ''late''\<rparr>]\<rparr>))))
     = [Approved] \<and>
   map rejection_reason (requests_table (snd (handler sample_env (sample_post ''r1'' Approved None)
      (sample_world\<lparr>requests_table :=
         [sample_request\<lparr>status := Rejected, rejection_reason := Some ''late''\<rparr>]\<rparr>))))
     = [Some ''late'']"
  by (simp add: sample_defs handler_defs)

text \<open>
  C5, amended. After every successful approval transition the record of the request, as
  stored and as returned, has status \<^verbatim>\<open>approved\<close>, its \<^verbatim>\<open>approved_at\<close> is the time of the
  transition, and its \<^verbatim>\<open>rejection_reason\<close> is what it was before the transition: null when
  it was null, as it is for a request that was never rejected with a reason.
\<close>

theorem approval_result:
  assumes "handler e req w = (resp, w')"
    and "http_method req = ''POST''" and "status_code resp = 200"
    and "json req = Inr b" and "body_status b = Approved"
  shows "\<exists>r r'. filter (\<lambda>x. req_id x = requestId b) (requests_table w) = [r] \<and>
           filter (\<lambda>x. req_id x = requestId b) (requests_table w') = [r'] \<and>
           body resp = SuccessBody r' ''Request approved successfully'' \<and>
           status r' = Approved \<and> approved_at r' = Some (now e) \<and>
           rejection_reason r' = rejection_reason r"
proof -
  from handler_cases [OF assms(1)] assms(2,3,4) obtain r' rows' where
    u: "db_update (store_fault e) (updateData (now e) b) (requestId b) (requests_table w)
          = Inr (r', rows')"
    and resp: "resp = \<lparr>status_code = 200, headers = json_headers,
                  body = SuccessBody r'
                    (''Request '' @ status_text (body_status b) @ '' successfully'')\<rparr>"
    and w': "requests_table w' = rows'"
    by auto
  from db_update_Inr [OF u] obtain r where
    f: "filter (\<lambda>x. req_id x = requestId b) (requests_table w) = [r]"
    and r': "r' = apply_update (updateData (now e) b) r"
    and rows': "rows' = map (\<lambda>x. if req_id x = requestId b
                  then apply_update (updateData (now e) b) x else x) (requests_table w)"
    by auto
  have "filter (\<lambda>x. req_id x = requestId b) (requests_table w') = [r']"
    by (simp add: w' rows' filter_updated_rows f r')
  moreover have "body resp = SuccessBody r' ''Request approved successfully''"
    by (simp add: resp assms(5) status_text_def)
  moreover have "status r' = Approved \<and> approved_at r' = Some (now e) \<and>
      rejection_reason r' = rejection_reason r"
    by (simp add: r' apply_update_def updateData_def assms(5) Let_def)
  ultimately show ?thesis using f by blast
qed

theorem approval_result_witness:
  "http_method (sample_post ''r1'' Approved None) = ''POST'' \<and>
   status_code (fst (handler sample_env (sample_post ''r1'' Approved None) sample_world)) = 200 \<and>
   (\<exists>r r'. filter (\<lambda>x. req_id x = ''r1'') (requests_table sample_world) = [r] \<and>
      filter (\<lambda>x. req_id x = ''r1'')
        (requests_table (snd (handler sample_env (sample_post ''r1'' Approved None) sample_world)))
        = [r'] \<and>
      body (fst (handler sample_env (sample_post ''r1'' Approved None) sample_world))
        = SuccessBody r' ''Request approved successfully'' \<and>
      status r' = Approved \<and> approved_at r' = Some 99 \<and>
      rejection_reason r' = rejection_reason r)"
proof -
  have m: "http_method (sample_post ''r1'' Approved None) = ''POST''"
    by (simp add: sample_post_def)
  have s: "status_code (fst (handler sample_env (sample_post ''r1'' Approved None) sample_world))
      = 200"
    by (simp add: sample_defs handler_defs)
  have j: "json (sample_post ''r1'' Approved None) =
      Inr \<lparr>requestId = ''r1'', body_status = Approved, rejectionReason = None\<rparr>"
    by (simp add: sample_post_def)
  have a: "body_status \<lparr>requestId = ''r1'', body_status = Approved, rejectionReason = None\<rparr>
      = Approved"
    by simp
  show ?thesis
    using m s approval_result [OF surjective_pairing m s j a]
    by (simp add: sample_env_def)
qed

subsection \<open>Failure of the notification\<close>

text \<open>
  Whenever the status update of a transition succeeds, the handler answers 200 with the
  updated record and the table holds the update, whatever the notification call does:
  exactly one notification is attempted, a call that throws is caught and logged, and the
  answer and the stored rows are the same as for any other outcome of the call.
\<close>

lemma notification_outcome_irrelevant:
  assumes "truthy (authorization req)" and "http_method req = ''POST''"
    and "json req = Inr b"
    and "db_update (store_fault e) (updateData (now e) b) (requestId b) (requests_table w)
           = Inr (r', rows')"
  shows "fst (handler e req w) =
           \<lparr>status_code = 200, headers = json_headers,
            body = SuccessBody r'
                     (''Request '' @ status_text (body_status b) @ '' successfully'')\<rparr> \<and>
         requests_table (snd (handler e req w)) = rows' \<and>
         notifications (snd (handler e req w)) =
           notifications w @
             [\<lparr>n_requestId = requestId b, n_action = body_status b,
               n_rejectionReason = rejectionReason b\<rparr>] \<and>
         (email_call e = EmailThrows \<longrightarrow>
            last (console (snd (handler e req w))) = Err ''Failed to send email notification:'') \<and>
         fst (handler (e\<lparr>email_call := outcome\<rparr>) req w) = fst (handler e req w) \<and>
         requests_table (snd (handler (e\<lparr>email_call := outcome\<rparr>) req w)) =
           requests_table (snd (handler e req w))"
proof -
  have u': "db_update (store_fault (e\<lparr>email_call := outcome\<rparr>))
      (updateData (now (e\<lparr>email_call := outcome\<rparr>)) b) (requestId b) (requests_table w)
           = Inr (r', rows')"
    using assms(4) by simp
  note A = handler_success [OF assms]
  note B = handler_success [OF assms(1,2,3) u']
  show ?thesis
    using A by (simp add: B(1,2))
qed

text \<open>
  C6. The code misses a case of the claim. The status update succeeds and the
  notification call fails by returning an error object, the way the client library reports
  a failed function call: the handler answers 200 and the request is rejected in the
  table, as the claim says, but the failure is not logged. The handler never reads what
  the call returns; its last console entry says the notification was sent and no entry
  reports a failure. Only a call that throws is logged as failed.
\<close>

theorem notification_error_not_logged:
  "status_code (fst (handler (sample_env\<lparr>email_call := EmailError\<rparr>)
      (sample_post ''r1'' Rejected (Some ''late'')) sample_world)) = 200 \<and>
   map status (requests_table (snd (handler (sample_env\<lparr>email_call := EmailError\<rparr>)
      (sample_post ''r1'' Rejected (Some ''late'')) sample_world))) = [Rejected] \<and>
   last (console (snd (handler (sample_env\<lparr>email_call := EmailError\<rparr>)
      (sample_post ''r1'' Rejected (Some ''late'')) sample_world)))
     = Log ''Email notification sent'' \<and>
   Err ''Failed to send email notification:'' \<notin>
     set (console (snd (handler (sample_env\<lparr>email_call := EmailError\<rparr>)
       (sample_post ''r1'' Rejected (Some ''late'')) sample_world))) \<and>
   last (console (snd (handler (sample_env\<lparr>email_call := EmailThrows\<rparr>)
      (sample_post ''r1'' Rejected (Some ''late'')) sample_world)))
     = Err ''Failed to send email notification:''"
  by (simp add: sample_defs handler_defs)

section \<open>Properties of the request list\<close>

lemma created_at_transform: "created_at (transform r) = created_at r"
  by (simp add: transform_def)

lemma user_id_transform: "user_id (transform r) = user_id r"
  by (simp add: transform_def)

lemma users_transform: "users (transform r) = users r"
  by (simp add: transform_def)

lemma user_id_join_users: "user_id (join_users us r) = user_id r"
  by (simp add: join_users_def request_row.defs request.defs)

lemma users_join_users:
  "users (join_users us r) =
     map_option (\<lambda>u. \<lparr>name = usr_name u, email = usr_email u,
                  department = usr_department u, users_polo = usr_polo u\<rparr>)
       (find (\<lambda>u. usr_id u = user_id r) us)"
  by (simp add: join_users_def request_row.defs request.defs)

lemma sorted_desc_rev_sort_key:
  "sorted_wrt (\<lambda>a b. f b \<le> f a) (rev (sort_key f xs))"
proof -
  have "sorted (map f (sort_key f xs))" by (rule sorted_sort_key)
  then have "sorted_wrt (\<lambda>a b. f a \<le> f b) (sort_key f xs)"
    by (simp add: sorted_map)
  then show ?thesis by (simp add: sorted_wrt_rev)
qed

lemma mset_select_requests:
  "mset (select_requests p w) =
     (if role p = Solicitante
      then mset (map (join_users (users_table w))
             (filter (\<lambda>r. user_id r = profile_id p) (requests_table w)))
      else mset (map (join_users (users_table w)) (requests_table w)))"
  by (simp add: select_requests_def Let_def filter_map comp_def user_id_join_users)

lemma sorted_select_requests:
  "sorted_wrt (\<lambda>a b. created_at b \<le> created_at a) (select_requests p w)"
  by (simp add: select_requests_def Let_def sorted_desc_rev_sort_key)

lemma requests_fetchRequests:
  "query_fault e = None \<Longrightarrow>
     requests (fetchRequests e (Some p) w h) = map transform (select_requests p w)"
  by (simp add: fetchRequests_def Let_def)

lemma mset_fetchRequests:
  assumes "query_fault e = None"
  shows "mset (requests (fetchRequests e (Some p) w h)) =
     (if role p = Solicitante
      then mset (map (transform \<circ> join_users (users_table w))
             (filter (\<lambda>r. user_id r = profile_id p) (requests_table w)))
      else mset (map (transform \<circ> join_users (users_table w)) (requests_table w)))"
proof -
  have "mset (requests (fetchRequests e (Some p) w h)) =
      image_mset transform (mset (select_requests p w))"
    by (simp add: requests_fetchRequests [OF assms])
  then show ?thesis
    by (simp add: mset_select_requests multiset.map_comp)
qed

lemma set_fetchRequests:
  assumes "query_fault e = None"
  shows "set (requests (fetchRequests e (Some p) w h)) =
     (if role p = Solicitante
      then (transform \<circ> join_users (users_table w)) `
             {r \<in> set (requests_table w). user_id r = profile_id p}
      else (transform \<circ> join_users (users_table w)) ` set (requests_table w))"
proof -
  have "set (requests (fetchRequests e (Some p) w h)) =
      set_mset (mset (requests (fetchRequests e (Some p) w h)))"
    by simp
  also have "\<dots> = (if role p = Solicitante
      then (transform \<circ> join_users (users_table w)) `
             {r \<in> set (requests_table w). user_id r = profile_id p}
      else (transform \<circ> join_users (users_table w)) ` set (requests_table w))"
    unfolding mset_fetchRequests [OF assms] by simp
  finally show ?thesis .
qed

text \<open>
  C7, as stated, fails in its last part: without a signed-in viewer \<^verbatim>\<open>fetchRequests\<close>
  returns at once; the state of the hook is as before and records no error.
\<close>

theorem fetch_unauthenticated_counterexample:
  "fetchRequests sample_env None sample_world2 sample_hook = sample_hook \<and>
   error (fetchRequests sample_env None sample_world2 sample_hook) = None"
  by (simp add: fetchRequests_def sample_hook_def)

text \<open>
  C7, amended. When the query succeeds for a signed-in viewer, the list is ordered by
  creation time, newest first, and no error is recorded; for a \<^verbatim>\<open>solicitante\<close> it holds
  exactly the viewer's own rows, for a manager all rows; each entry carries the joined
  fields (name, email, department, polo) of the user who owns it. When the viewer is not
  signed in, the call does nothing: the state of the hook stays as it was.
\<close>

theorem fetchRequests_result:
  assumes "query_fault e = None"
  shows "sorted_wrt (\<lambda>a b. created_at b \<le> created_at a)
           (requests (fetchRequests e (Some p) w h)) \<and>
         error (fetchRequests e (Some p) w h) = None \<and>
         (role p = Solicitante \<longrightarrow>
            mset (requests (fetchRequests e (Some p) w h)) =
              mset (map (transform \<circ> join_users (users_table w))
                     (filter (\<lambda>r. user_id r = profile_id p) (requests_table w))) \<and>
            (\<forall>r \<in> set (requests (fetchRequests e (Some p) w h)). user_id r = profile_id p)) \<and>
         (role p = Gestora \<longrightarrow>
            mset (requests (fetchRequests e (Some p) w h)) =
              mset (map (transform \<circ> join_users (users_table w)) (requests_table w))) \<and>
         (\<forall>r \<in> set (requests (fetchRequests e (Some p) w h)).
            users r =
              map_option (\<lambda>u. \<lparr>name = usr_name u, email = usr_email u,
                           department = usr_department u, users_polo = usr_polo u\<rparr>)
                (find (\<lambda>u. usr_id u = user_id r) (users_table w))) \<and>
         fetchRequests e None w h = h"
proof (intro conjI impI)
  show "sorted_wrt (\<lambda>a b. created_at b \<le> created_at a)
      (requests (fetchRequests e (Some p) w h))"
    using sorted_select_requests [of p w]
    by (simp add: requests_fetchRequests [OF assms] sorted_wrt_map created_at_transform)
  show "error (fetchRequests e (Some p) w h) = None"
    using assms by (simp add: fetchRequests_def Let_def)
  show "fetchRequests e None w h = h"
    by (simp add: fetchRequests_def)
  show "\<forall>r \<in> set (requests (fetchRequests e (Some p) w h)).
      users r =
        map_option (\<lambda>u. \<lparr>name = usr_name u, email = usr_email u,
                     department = usr_department u, users_polo = usr_polo u\<rparr>)
          (find (\<lambda>u. usr_id u = user_id r) (users_table w))"
    unfolding set_fetchRequests [OF assms]
    by (auto simp: users_transform users_join_users user_id_transform user_id_join_users)
next
  assume s: "role p = Solicitante"
  show "mset (requests (fetchRequests e (Some p) w h)) =
      mset (map (transform \<circ> join_users (users_table w))
        (filter (\<lambda>r. user_id r = profile_id p) (requests_table w)))"
    by (simp only: mset_fetchRequests [OF assms] s if_True refl)
  show "\<forall>r \<in> set (requests (fetchRequests e (Some p) w h)). user_id r = profile_id p"
    unfolding set_fetchRequests [OF assms]
    using s by (auto simp: user_id_transform user_id_join_users)
next
  assume "role p = Gestora"
  then have "(role p = Solicitante) = False" by simp
  then show "mset (requests (fetchRequests e (Some p) w h)) =
      mset (map (transform \<circ> join_users (users_table w)) (requests_table w))"
    by (simp only: mset_fetchRequests [OF assms] if_False)
qed


theorem fetchRequests_result_witness:
  "query_fault sample_env = None \<and>
   map req_id (requests (fetchRequests sample_env
      (Some \<lparr>profile_id = ''u1'', role = Solicitante\<rparr>) sample_world2 sample_hook)) = [''r1''] \<and>
   map req_id (requests (fetchRequests sample_env
      (Some \<lparr>profile_id = ''g1'', role = Gestora\<rparr>) sample_world2 sample_hook)) = [''r2'', ''r1''] \<and>
   sorted_wrt (\<lambda>a b. created_at b \<le> created_at a)
     (requests (fetchRequests sample_env
        (Some \<lparr>profile_id = ''g1'', role = Gestora\<rparr>) sample_world2 sample_hook)) \<and>
   list_all (\<lambda>r. user_id r = ''u1'')
     (requests (fetchRequests sample_env
        (Some \<lparr>profile_id = ''u1'', role = Solicitante\<rparr>) sample_world2 sample_hook))"
proof -
  have q: "query_fault sample_env = None" by (simp add: sample_env_def)
  note A = fetchRequests_result [OF q, where p = "\<lparr>profile_id = ''u1'', role = Solicitante\<rparr>"
      and w = sample_world2 and h = sample_hook]
  note B = fetchRequests_result [OF q, where p = "\<lparr>profile_id = ''g1'', role = Gestora\<rparr>"
      and w = sample_world2 and h = sample_hook]
  have s: "role \<lparr>profile_id = ''u1'', role = Solicitante\<rparr> = Solicitante" by simp
  have w1: "map req_id (requests (fetchRequests sample_env
      (Some \<lparr>profile_id = ''u1'', role = Solicitante\<rparr>) sample_world2 sample_hook)) = [''r1'']"
    by (simp add: sample_defs fetchRequests_def select_requests_def join_users_def
        transform_def request_row.defs request.defs Let_def)
  have w2: "map req_id (requests (fetchRequests sample_env
      (Some \<lparr>profile_id = ''g1'', role = Gestora\<rparr>) sample_world2 sample_hook))
      = [''r2'', ''r1'']"
    by (simp add: sample_defs fetchRequests_def select_requests_def join_users_def
        transform_def request_row.defs request.defs Let_def)
  from A [THEN conjunct2, THEN conjunct2, THEN conjunct1, rule_format, OF s, THEN conjunct2]
  have 3: "list_all (\<lambda>r. user_id r = ''u1'')
     (requests (fetchRequests sample_env
        (Some \<lparr>profile_id = ''u1'', role = Solicitante\<rparr>) sample_world2 sample_hook))"
    by (simp add: list_all_iff)
  note 4 = B [THEN conjunct1]
  show ?thesis using q w1 w2 3 4 by simp
qed


section \<open>Properties of the request form\<close>

lemma uploadFiles_loop_fails:
  assumes "\<forall>(i, g) \<in> set (enumerate k pre).
             \<exists>d. storage_upload e (fileName e pid i g) g = Inr d"
    and "storage_upload e (fileName e pid (k + length pre) f) f = Inl msg"
  shows "uploadFiles_loop e pid (pre @ f # post) k acc w =
           (Inl (''Erro ao fazer upload do arquivo '' @ file_name f @ '': '' @ msg),
            w\<lparr>upload_calls := upload_calls w @
                 map (\<lambda>(i, g). fileName e pid i g) (enumerate k (pre @ [f])),
               bucket := bucket w @
                 map (\<lambda>(i, g). fileName e pid i g) (enumerate k pre)\<rparr>)"
  using assms
proof (induction pre arbitrary: k acc w)
  case Nil
  then show ?case by (simp add: Let_def)
next
  case (Cons g pre)
  from Cons.prems(1) obtain d where d: "storage_upload e (fileName e pid k g) g = Inr d"
    by auto
  from Cons.prems(1) have rest: "\<forall>(i, g) \<in> set (enumerate (Suc k) pre).
      \<exists>d. storage_upload e (fileName e pid i g) g = Inr d"
    by auto
  from Cons.prems(2) have bad: "storage_upload e (fileName e pid (Suc k + length pre) f) f = Inl msg"
    by simp
  show ?case
    by (simp add: Let_def d Cons.IH [OF rest bad])
qed

lemma uploadFiles_fails:
  assumes "profile_id p \<noteq> []"
    and "\<forall>(i, g) \<in> set (enumerate 0 pre).
             \<exists>d. storage_upload e (fileName e (profile_id p) i g) g = Inr d"
    and "storage_upload e (fileName e (profile_id p) (length pre) f) f = Inl msg"
  shows "uploadFiles e (Some p) (pre @ f # post) w =
           (Inl (''Erro ao fazer upload do arquivo '' @ file_name f @ '': '' @ msg),
            w\<lparr>upload_calls := upload_calls w @
                 map (\<lambda>(i, g). fileName e (profile_id p) i g) (enumerate 0 (pre @ [f])),
               bucket := bucket w @
                 map (\<lambda>(i, g). fileName e (profile_id p) i g) (enumerate 0 pre)\<rparr>)"
proof -
  have "storage_upload e (fileName e (profile_id p) (0 + length pre) f) f = Inl msg"
    using assms(3) by simp
  from uploadFiles_loop_fails [OF assms(2) this]
  show ?thesis using assms(1) by (simp add: uploadFiles_def)
qed

text \<open>
  C8, as stated, fails in its last part: with three files of which the second fails, the
  first is stored, yet the request is created with an empty list of attachments.
\<close>

theorem partial_upload_counterexample:
  "bucket (snd (onSubmit sample_env (Some \<lparr>profile_id = ''u1'', role = Solicitante\<rparr>)
      sample_values sample_form sample_world)) = [''u1/1000-good.pdf''] \<and>
   map attachments (requests_table (snd (onSubmit sample_env
      (Some \<lparr>profile_id = ''u1'', role = Solicitante\<rparr>) sample_values sample_form sample_world)))
     = [None, Some []]"
  by (simp add: onSubmit_def uploadFiles_def createRequest_def inserted_row_def fileName_def
      safe_char_def decimal.simps sample_defs Let_def)

text \<open>
  C8, amended. Files are uploaded one at a time in the order of the list. When the upload
  of a file fails after the files before it were stored, no later file is uploaded and
  only the upload step is abandoned: the user is warned and the request is still created
  (when the store accepts the insert), pending and owned by the submitter, with an empty
  list of attachments; the files stored before the failure stay in the storage without
  being attached.
\<close>

theorem upload_failure_still_creates:
  assumes "profile_id p \<noteq> []"
    and "attachments_files s = pre @ f # post"
    and "\<forall>(i, g) \<in> set (enumerate 0 pre).
           \<exists>d. storage_upload e (fileName e (profile_id p) i g) g = Inr d"
    and "storage_upload e (fileName e (profile_id p) (length pre) f) f = Inl msg"
    and "insert_fault e = None"
  shows "\<exists>row.
           requests_table (snd (onSubmit e (Some p) values s w)) = requests_table w @ [row] \<and>
           attachments row = Some [] \<and> status row = Pending \<and> user_id row = profile_id p \<and>
           upload_calls (snd (onSubmit e (Some p) values s w)) =
             upload_calls w @
               map (\<lambda>(i, g). fileName e (profile_id p) i g) (enumerate 0 (pre @ [f])) \<and>
           bucket (snd (onSubmit e (Some p) values s w)) =
             bucket w @ map (\<lambda>(i, g). fileName e (profile_id p) i g) (enumerate 0 pre) \<and>
           form_toasts (fst (onSubmit e (Some p) values s w)) =
             form_toasts s @ [AvisoAnexos, Sucesso]"
proof -
  note up = uploadFiles_fails [OF assms(1,3,4), of post w]
  show ?thesis
    using assms(1,5)
    by (simp add: onSubmit_def assms(2) up createRequest_def inserted_row_def Let_def)
qed

theorem upload_failure_still_creates_witness:
  "profile_id \<lparr>profile_id = ''u1'', role = Solicitante\<rparr> \<noteq> [] \<and>
   attachments_files sample_form =
     [\<lparr>file_name = ''good.pdf''\<rparr>] @ \<lparr>file_name = ''bad.pdf''\<rparr> # [\<lparr>file_name = ''late.pdf''\<rparr>] \<and>
   insert_fault sample_env = None \<and>
   (\<exists>row.
      requests_table (snd (onSubmit sample_env (Some \<lparr>profile_id = ''u1'', role = Solicitante\<rparr>)
         sample_values sample_form sample_world)) = requests_table sample_world @ [row] \<and>
      attachments row = Some [] \<and> status row = Pending \<and> user_id row = ''u1'') \<and>
   upload_calls (snd (onSubmit sample_env (Some \<lparr>profile_id = ''u1'', role = Solicitante\<rparr>)
      sample_values sample_form sample_world)) = [''u1/1000-good.pdf'', ''u1/1001-bad.pdf''] \<and>
   bucket (snd (onSubmit sample_env (Some \<lparr>profile_id = ''u1'', role = Solicitante\<rparr>)
      sample_values sample_form sample_world)) = [''u1/1000-good.pdf''] \<and>
   form_toasts (fst (onSubmit sample_env (Some \<lparr>profile_id = ''u1'', role = Solicitante\<rparr>)
      sample_values sample_form sample_world)) = [AvisoAnexos, Sucesso]"
proof -
  let ?p = "\<lparr>profile_id = ''u1'', role = Solicitante\<rparr>"
  have 1: "profile_id ?p \<noteq> []" by simp
  have 2: "attachments_files sample_form =
     [\<lparr>file_name = ''good.pdf''\<rparr>] @ \<lparr>file_name = ''bad.pdf''\<rparr> # [\<lparr>file_name = ''late.pdf''\<rparr>]"
    by (simp add: sample_form_def)
  have 3: "\<forall>(i, g) \<in> set (enumerate 0 [\<lparr>file_name = ''good.pdf''\<rparr>]).
      \<exists>d. storage_upload sample_env (fileName sample_env (profile_id ?p) i g) g = Inr d"
    by (simp add: sample_env_def)
  have 4: "storage_upload sample_env
      (fileName sample_env (profile_id ?p) (length [\<lparr>file_name = ''good.pdf''\<rparr>])
         \<lparr>file_name = ''bad.pdf''\<rparr>) \<lparr>file_name = ''bad.pdf''\<rparr> = Inl ''Payload too large''"
    by (simp add: sample_env_def)
  have 5: "insert_fault sample_env = None" by (simp add: sample_env_def)
  have n: "fileName sample_env ''u1'' 0 \<lparr>file_name = ''good.pdf''\<rparr> = ''u1/1000-good.pdf''"
    "fileName sample_env ''u1'' (Suc 0) \<lparr>file_name = ''bad.pdf''\<rparr> = ''u1/1001-bad.pdf''"
    by (simp_all add: fileName_def safe_char_def decimal.simps sample_env_def)
  have e: "upload_calls sample_world = []" "bucket sample_world = []"
    "form_toasts sample_form = []"
    by (simp_all add: sample_world_def sample_form_def)
  from upload_failure_still_creates [OF 1 2 3 4 5, of sample_values sample_world]
  obtain row where
    r: "requests_table (snd (onSubmit sample_env (Some ?p) sample_values sample_form
          sample_world)) = requests_table sample_world @ [row]"
      "attachments row = Some []" "status row = Pending" "user_id row = ''u1''"
    and u: "upload_calls (snd (onSubmit sample_env (Some ?p) sample_values sample_form
          sample_world)) = [''u1/1000-good.pdf'', ''u1/1001-bad.pdf'']"
    and b: "bucket (snd (onSubmit sample_env (Some ?p) sample_values sample_form
          sample_world)) = [''u1/1000-good.pdf'']"
    and t: "form_toasts (fst (onSubmit sample_env (Some ?p) sample_values sample_form
          sample_world)) = [AvisoAnexos, Sucesso]"
    by (auto simp: n e)
  from r have "\<exists>row.
      requests_table (snd (onSubmit sample_env (Some ?p) sample_values sample_form
         sample_world)) = requests_table sample_world @ [row] \<and>
      attachments row = Some [] \<and> status row = Pending \<and> user_id row = ''u1''"
    by blast
  with 1 2 5 u b t show ?thesis by simp
qed

section \<open>Properties of the branch filter\<close>

lemma groupByPolo_apply:
  "groupByPolo xs b =
     (if b \<in> set polos then Some (filter (\<lambda>r. owner_polo r = Some b) xs) else None)"
  by (simp add: groupByPolo_def polos_def)

lemma todos_not_polo: "''todos'' \<notin> set polos"
  by (simp add: polos_def)

lemma mset_polo_partition:
  "mset xs =
     (\<Sum>b\<leftarrow>polos. mset (filter (\<lambda>r. owner_polo r = Some b) xs)) +
     mset (filter (\<lambda>r. owner_polo r \<notin> Some ` set polos) xs)"
  by (induction xs) (auto simp: polos_def)

text \<open>
  C10, as stated, fails: the filter reads the branch of the owner (\<^verbatim>\<open>r.users?.polo\<close>), not
  the branch of the request. A request for Manaus whose owner belongs to Itapetininga is
  not in the list filtered by Manaus.
\<close>

theorem filter_by_request_polo_counterexample:
  "polo (join_users [sample_user] sample_request) = Some ''Manaus'' \<and>
   filterByPolo ''Manaus'' [join_users [sample_user] sample_request] = []"
  by (simp add: filterByPolo_def owner_polo_def join_users_def sample_defs
      request_row.defs request.defs)

text \<open>
  C10, amended. For every request list and every branch, filtering by that branch returns
  exactly the requests whose owner's branch (the \<^verbatim>\<open>polo\<close> of the joined user) equals the
  branch, which is also the group of that branch; the groups are those of the four
  branches; and the four filtered lists together with the requests whose owner has none
  of the four branches make up the unfiltered list, each request once.
\<close>

theorem filterByPolo_partition:
  "(b \<noteq> ''todos'' \<longrightarrow>
      filterByPolo b xs = filter (\<lambda>r. owner_polo r = Some b) xs \<and>
      set (filterByPolo b xs) = {r \<in> set xs. owner_polo r = Some b}) \<and>
   (b \<in> set polos \<longrightarrow> groupByPolo xs b = Some (filterByPolo b xs)) \<and>
   dom (groupByPolo xs) = set polos \<and>
   mset xs =
     (\<Sum>b\<leftarrow>polos. mset (filterByPolo b xs)) +
     mset (filter (\<lambda>r. owner_polo r \<notin> Some ` set polos) xs) \<and>
   set xs =
     (\<Union>b \<in> set polos. set (filterByPolo b xs)) \<union>
     {r \<in> set xs. owner_polo r \<notin> Some ` set polos}"
proof (intro conjI impI)
  assume "b \<noteq> ''todos''"
  then show "filterByPolo b xs = filter (\<lambda>r. owner_polo r = Some b) xs"
    by (simp add: filterByPolo_def)
  then show "set (filterByPolo b xs) = {r \<in> set xs. owner_polo r = Some b}"
    by simp
next
  assume b: "b \<in> set polos"
  with todos_not_polo have "b \<noteq> ''todos''" by auto
  with b show "groupByPolo xs b = Some (filterByPolo b xs)"
    by (simp add: groupByPolo_apply filterByPolo_def)
next
  show "dom (groupByPolo xs) = set polos"
    by (auto simp: groupByPolo_apply dom_def split: if_splits)
next
  have eq: "map (\<lambda>b. mset (filterByPolo b xs)) polos =
      map (\<lambda>b. mset (filter (\<lambda>r. owner_polo r = Some b) xs)) polos"
    using todos_not_polo by (intro map_cong refl) (auto simp: filterByPolo_def)
  show "mset xs =
     (\<Sum>b\<leftarrow>polos. mset (filterByPolo b xs)) +
     mset (filter (\<lambda>r. owner_polo r \<notin> Some ` set polos) xs)"
    unfolding eq by (rule mset_polo_partition)
next
  have "\<And>b. b \<in> set polos \<Longrightarrow>
      set (filterByPolo b xs) = {r \<in> set xs. owner_polo r = Some b}"
    using todos_not_polo by (auto simp: filterByPolo_def)
  then show "set xs =
     (\<Union>b \<in> set polos. set (filterByPolo b xs)) \<union>
     {r \<in> set xs. owner_polo r \<notin> Some ` set polos}"
    by auto
qed

theorem filterByPolo_partition_witness:
  "''Manaus'' \<noteq> ''todos'' \<and> ''Manaus'' \<in> set polos \<and>
   map req_id (filterByPolo ''Manaus'' sample_requests) = [''r2''] \<and>
   map req_id (filterByPolo ''Itapetininga'' sample_requests) = [''r1''] \<and>
   groupByPolo sample_requests ''Manaus'' = Some (filterByPolo ''Manaus'' sample_requests) \<and>
   filterByPolo ''Manaus'' sample_requests =
     filter (\<lambda>r. owner_polo r = Some ''Manaus'') sample_requests"
proof -
  have t: "''Manaus'' \<noteq> ''todos''" by simp
  have m: "''Manaus'' \<in> set polos" by (simp add: polos_def)
  note A = filterByPolo_partition [where b = "''Manaus''" and xs = sample_requests]
  note A1 = A [THEN conjunct1, rule_format, OF t, THEN conjunct1]
  note A2 = A [THEN conjunct2, THEN conjunct1, rule_format, OF m]
  have 1: "map req_id (filterByPolo ''Manaus'' sample_requests) = [''r2'']"
    by (simp add: filterByPolo_def owner_polo_def join_users_def sample_defs
        request_row.defs request.defs)
  have 2: "map req_id (filterByPolo ''Itapetininga'' sample_requests) = [''r1'']"
    by (simp add: filterByPolo_def owner_polo_def join_users_def sample_defs
        request_row.defs request.defs)
  show ?thesis using t m 1 2 A1 A2 by simp
qed


end
